theory Spec2Isabelle
  imports Main "HOL-Library.AList"
begin

section \<open>Inventory backend: the stock ledger behind the order and purchase-order routes\<close>

text \<open>
  The development embeds the route handlers of \<^verbatim>\<open>routes/order.routes.js\<close> and
  \<^verbatim>\<open>routes/purchaseorder.routes.js\<close> as functions on an explicit store.

  Conventions of the embedding:
  \<^item> a MongoDB collection is an association list from document id to document;
    \<^verbatim>\<open>findById\<close> is \<open>map_of\<close>, \<^verbatim>\<open>doc.save()\<close> of a loaded document is
    \<open>AList.update\<close>, \<^verbatim>\<open>Model.create\<close> appends, \<^verbatim>\<open>findByIdAndDelete\<close> is
    \<open>AList.delete\<close>;
  \<^item> a handler is the function passed to the router, after the \<^verbatim>\<open>protect\<close> and
    \<^verbatim>\<open>admin\<close> middleware (which are not among the sources) have set
    \<^verbatim>\<open>req.user\<close>; it returns the response together with the store it leaves behind;
  \<^item> every \<^verbatim>\<open>return res.status(4xx)\<close> and every exception caught by the handler's
    \<^verbatim>\<open>catch\<close> (answered with status 500) is a constructor of \<open>error\<close>;
  \<^item> quantities, prices and stock counts are JavaScript numbers in the source; they are
    integers here (amounts in minor units), so rounding and \<^verbatim>\<open>NaN\<close> are outside the model;
    a status is a string, and a request always carries the fields its handler reads,
    except where a field is optional below;
  \<^item> the clock (\<^verbatim>\<open>Date.now()\<close>, \<^verbatim>\<open>new Date()\<close>), the random suffix of generated numbers
    and the fresh document id are inputs of a request (\<open>env\<close>); all clock reads of one
    request see the same value;
  \<^item> one handler runs at a time: the interleaving of concurrent requests at the
    \<^verbatim>\<open>await\<close> points is not modelled.
\<close>

subsection \<open>Documents\<close>

text \<open>
  The Product model file is not among the sources; the handlers read \<^verbatim>\<open>_id\<close>,
  \<^verbatim>\<open>name\<close>, \<^verbatim>\<open>price\<close> and \<^verbatim>\<open>stock\<close> of a product and write \<^verbatim>\<open>stock\<close> only.
  Saving a product is modelled as always succeeding.
\<close>

record product =
  p_name :: string
  p_price :: int
  p_stock :: int

record order_item =
  oi_product :: nat
  oi_productName :: string
  oi_quantity :: int
  oi_price :: int

record order =
  o_orderNumber :: string
  o_user :: nat
  o_items :: "order_item list"
  o_totalAmount :: int
  o_shippingAddress :: string
  o_status :: string

text \<open>\<^verbatim>\<open>purchaseOrderItemSchema\<close> and \<^verbatim>\<open>purchaseOrderSchema\<close>.\<close>

record purchase_order_item =
  poi_product :: nat
  poi_productName :: string
  poi_quantity :: int
  poi_unitPrice :: int

record purchase_order =
  po_poNumber :: string
  po_supplier :: string
  po_items :: "purchase_order_item list"
  po_totalAmount :: int
  po_status :: string
  po_createdBy :: nat
  po_expectedDeliveryDate :: "nat option"
  po_receivedDate :: "nat option"
  po_notes :: string
  po_createdAt :: nat
  po_updatedAt :: nat

record state =
  products :: "(nat \<times> product) list"
  orders :: "(nat \<times> order) list"
  purchase_orders :: "(nat \<times> purchase_order) list"

subsection \<open>Requests, environment and responses\<close>

text \<open>\<^verbatim>\<open>req.user\<close>, as the authentication middleware leaves it.\<close>

record req_user =
  u_id :: nat
  u_role :: string

text \<open>
  One element of \<^verbatim>\<open>req.body.items\<close> of an order request. A client may send a
  \<^verbatim>\<open>price\<close> with an item; the order handler never reads it.
\<close>

record order_item_req =
  ir_product :: nat
  ir_quantity :: int
  ir_price :: "int option"

record order_body =
  ob_items :: "order_item_req list"
  ob_shippingAddress :: string

text \<open>
  One element of \<^verbatim>\<open>req.body.items\<close> of a purchase-order request; \<^verbatim>\<open>unitPrice\<close> may be
  absent (\<open>None\<close>).
\<close>

record po_item_req =
  pr_product :: nat
  pr_quantity :: int
  pr_unitPrice :: "int option"

record po_body =
  pb_supplier :: string
  pb_items :: "po_item_req list"
  pb_expectedDeliveryDate :: "nat option"
  pb_notes :: "string option"

record env =
  now :: nat
  random1000 :: nat
  new_id :: nat

datatype exn = ValidationError | DuplicateKey

datatype error =
    NoOrderItems
  | NoPurchaseOrderItems
  | ProductNotFound nat
  | InsufficientStock string int
  | OrderNotFound
  | PurchaseOrderNotFound
  | NotAuthorizedToCancel
  | CannotCancelInCurrentStatus
  | CannotUpdateReceived
  | CannotDeleteReceived
  | ServerError exn

text \<open>The HTTP status each failure is answered with.\<close>

fun status_code :: "error \<Rightarrow> nat" where
  "status_code NoOrderItems = 400"
| "status_code NoPurchaseOrderItems = 400"
| "status_code (ProductNotFound _) = 404"
| "status_code (InsufficientStock _ _) = 400"
| "status_code OrderNotFound = 404"
| "status_code PurchaseOrderNotFound = 404"
| "status_code NotAuthorizedToCancel = 403"
| "status_code CannotCancelInCurrentStatus = 400"
| "status_code CannotUpdateReceived = 400"
| "status_code CannotDeleteReceived = 400"
| "status_code (ServerError _) = 500"

subsection \<open>Generated numbers\<close>

text \<open>Decimal representation of a non-negative integer, as string concatenation gives it.\<close>

fun number_to_string :: "nat \<Rightarrow> string" where
  "number_to_string n =
     (if n < 10 then [char_of (48 + n)]
      else number_to_string (n div 10) @ [char_of (48 + n mod 10)])"

declare number_to_string.simps [simp del]

definition generateOrderNumber :: "env \<Rightarrow> string" where
  "generateOrderNumber e =
     ''ORD-'' @ number_to_string (now e) @ ''-'' @ number_to_string (random1000 e)"

definition generatePONumber :: "env \<Rightarrow> string" where
  "generatePONumber e =
     ''PO-'' @ number_to_string (now e) @ ''-'' @ number_to_string (random1000 e)"

subsection \<open>Schema validation\<close>

text \<open>
  The Order model (\<^verbatim>\<open>database/models/order.model.js\<close>) is not among the sources. The
  four definitions below stand for its schema and follow the data model of the
  specification.
\<close>

text \<open>
  Modelled from the spec: the status values of the Order schema, which is missing
  (``\<^verbatim>\<open>status\<close> in pending, processing, shipped, delivered, cancelled'').
\<close>

definition order_status_enum :: "string list" where
  "order_status_enum = [''pending'', ''processing'', ''shipped'', ''delivered'', ''cancelled'']"

text \<open>
  Modelled from the spec: the default of \<^verbatim>\<open>status\<close> in the missing Order schema
  (``persist order with status pending'').
\<close>

definition order_status_default :: string where
  "order_status_default = ''pending''"

text \<open>
  Modelled from the spec: the validation of a line item in the missing Order schema
  (``quantity at least 1'').
\<close>

definition order_item_valid :: "order_item \<Rightarrow> bool" where
  "order_item_valid it \<longleftrightarrow> 1 \<le> oi_quantity it"

text \<open>
  Modelled from the spec: what the missing Order schema validates when a whole order
  document is saved: the status enum and every line item.
\<close>

definition order_valid :: "order \<Rightarrow> bool" where
  "order_valid ord \<longleftrightarrow>
     o_status ord \<in> set order_status_enum \<and> list_all order_item_valid (o_items ord)"

text \<open>
  The purchase-order schema: \<^verbatim>\<open>status\<close> has an enum, \<^verbatim>\<open>supplier\<close> is a required
  string (the empty string fails \<^verbatim>\<open>required\<close>), an item's \<^verbatim>\<open>quantity\<close> has
  \<^verbatim>\<open>min: 1\<close>, \<^verbatim>\<open>poNumber\<close> is unique.
\<close>

definition po_status_enum :: "string list" where
  "po_status_enum = [''pending'', ''approved'', ''received'', ''cancelled'']"

definition po_item_valid :: "purchase_order_item \<Rightarrow> bool" where
  "po_item_valid it \<longleftrightarrow> 1 \<le> poi_quantity it"

definition po_valid :: "purchase_order \<Rightarrow> bool" where
  "po_valid po \<longleftrightarrow>
     po_supplier po \<noteq> [] \<and> po_status po \<in> set po_status_enum \<and>
     list_all po_item_valid (po_items po)"

subsection \<open>Order routes\<close>

text \<open>
  The loop of \<^verbatim>\<open>POST /api/orders\<close>: for each item, look the product up, check the
  stock, record the line item, add to the total, reduce the stock and save the product.
  A \<^verbatim>\<open>return\<close> inside the loop leaves the products saved so far as they are.
\<close>

fun order_loop ::
  "state \<Rightarrow> order_item_req list \<Rightarrow> int \<Rightarrow> order_item list \<Rightarrow>
     (error + int \<times> order_item list) \<times> state" where
  "order_loop st [] totalAmount orderItems = (Inr (totalAmount, orderItems), st)"
| "order_loop st (item # rest) totalAmount orderItems =
     (case map_of (products st) (ir_product item) of
        None \<Rightarrow> (Inl (ProductNotFound (ir_product item)), st)
      | Some product \<Rightarrow>
          if p_stock product < ir_quantity item
          then (Inl (InsufficientStock (p_name product) (p_stock product)), st)
          else order_loop
                 (st\<lparr>products :=
                       AList.update (ir_product item)
                         (product\<lparr>p_stock := p_stock product - ir_quantity item\<rparr>)
                         (products st)\<rparr>)
                 rest
                 (totalAmount + p_price product * ir_quantity item)
                 (orderItems @
                    [\<lparr>oi_product = ir_product item, oi_productName = p_name product,
                      oi_quantity = ir_quantity item, oi_price = p_price product\<rparr>]))"

text \<open>
  \<^verbatim>\<open>Order.create\<close>: the document is validated and inserted; a validation failure or a
  duplicate key is an exception, which the handler answers with status 500. The
  uniqueness of \<^verbatim>\<open>orderNumber\<close> is that of the specification's data model
  (``\<^verbatim>\<open>orderNumber\<close> (unique, generated)''); document ids are unique in a collection.
\<close>

definition Order_create :: "nat \<Rightarrow> order \<Rightarrow> state \<Rightarrow> exn + state" where
  "Order_create oid ord st =
     (if \<not> order_valid ord then Inl ValidationError
      else if oid \<in> fst ` set (orders st) \<or>
              o_orderNumber ord \<in> (o_orderNumber \<circ> snd) ` set (orders st)
      then Inl DuplicateKey
      else Inr (st\<lparr>orders := orders st @ [(oid, ord)]\<rparr>))"

definition create_order ::
  "env \<Rightarrow> req_user \<Rightarrow> order_body \<Rightarrow> state \<Rightarrow> (error + nat \<times> order) \<times> state" where
  "create_order e user body st =
     (if ob_items body = [] then (Inl NoOrderItems, st)
      else
        case order_loop st (ob_items body) 0 [] of
          (Inl err, st') \<Rightarrow> (Inl err, st')
        | (Inr (totalAmount, orderItems), st') \<Rightarrow>
            let ord = \<lparr>o_orderNumber = generateOrderNumber e, o_user = u_id user,
                       o_items = orderItems, o_totalAmount = totalAmount,
                       o_shippingAddress = ob_shippingAddress body,
                       o_status = order_status_default\<rparr>
            in (case Order_create (new_id e) ord st' of
                  Inl x \<Rightarrow> (Inl (ServerError x), st')
                | Inr st'' \<Rightarrow> (Inr (new_id e, ord), st'')))"

text \<open>
  \<^verbatim>\<open>PUT /api/orders/:id/status\<close>: the status is overwritten and the order saved. The
  save validates the modified path, \<^verbatim>\<open>status\<close>, against the enum.
\<close>

definition update_order_status ::
  "nat \<Rightarrow> string \<Rightarrow> state \<Rightarrow> (error + order) \<times> state" where
  "update_order_status oid status st =
     (case map_of (orders st) oid of
        None \<Rightarrow> (Inl OrderNotFound, st)
      | Some ord \<Rightarrow>
          let ord' = ord\<lparr>o_status := status\<rparr>
          in if status \<in> set order_status_enum
             then (Inr ord', st\<lparr>orders := AList.update oid ord' (orders st)\<rparr>)
             else (Inl (ServerError ValidationError), st))"

text \<open>The stock-restoring loop of \<^verbatim>\<open>DELETE /api/orders/:id\<close>.\<close>

fun restore_stock :: "state \<Rightarrow> order_item list \<Rightarrow> state" where
  "restore_stock st [] = st"
| "restore_stock st (item # rest) =
     (case map_of (products st) (oi_product item) of
        None \<Rightarrow> restore_stock st rest
      | Some product \<Rightarrow>
          restore_stock
            (st\<lparr>products :=
                  AList.update (oi_product item)
                    (product\<lparr>p_stock := p_stock product + oi_quantity item\<rparr>)
                    (products st)\<rparr>)
            rest)"

definition cancel_order :: "req_user \<Rightarrow> nat \<Rightarrow> state \<Rightarrow> (error + unit) \<times> state" where
  "cancel_order user oid st =
     (case map_of (orders st) oid of
        None \<Rightarrow> (Inl OrderNotFound, st)
      | Some ord \<Rightarrow>
          if u_role user \<noteq> ''admin'' \<and> o_user ord \<noteq> u_id user
          then (Inl NotAuthorizedToCancel, st)
          else if o_status ord \<noteq> ''pending'' \<and> o_status ord \<noteq> ''processing''
          then (Inl CannotCancelInCurrentStatus, st)
          else
            let st' = restore_stock st (o_items ord)
            in (Inr (),
                st'\<lparr>orders :=
                      AList.update oid (ord\<lparr>o_status := ''cancelled''\<rparr>) (orders st')\<rparr>))"

subsection \<open>Purchase-order routes\<close>

text \<open>
  \<^verbatim>\<open>item.unitPrice || product.price\<close>: the left operand is taken unless it is falsy,
  and for a number that is: absent or zero.
\<close>

definition unitPrice_or :: "int option \<Rightarrow> int \<Rightarrow> int" where
  "unitPrice_or unitPrice price =
     (case unitPrice of
        None \<Rightarrow> price
      | Some v \<Rightarrow> if v = 0 then price else v)"

text \<open>The loop of \<^verbatim>\<open>POST /api/purchase-orders\<close>; it writes nothing to the store.\<close>

fun po_loop ::
  "state \<Rightarrow> po_item_req list \<Rightarrow> int \<Rightarrow> purchase_order_item list \<Rightarrow>
     error + int \<times> purchase_order_item list" where
  "po_loop st [] totalAmount poItems = Inr (totalAmount, poItems)"
| "po_loop st (item # rest) totalAmount poItems =
     (case map_of (products st) (pr_product item) of
        None \<Rightarrow> Inl (ProductNotFound (pr_product item))
      | Some product \<Rightarrow>
          po_loop st rest
            (totalAmount + unitPrice_or (pr_unitPrice item) (p_price product) * pr_quantity item)
            (poItems @
               [\<lparr>poi_product = pr_product item, poi_productName = p_name product,
                 poi_quantity = pr_quantity item,
                 poi_unitPrice = unitPrice_or (pr_unitPrice item) (p_price product)\<rparr>]))"

definition PurchaseOrder_create :: "nat \<Rightarrow> purchase_order \<Rightarrow> state \<Rightarrow> exn + state" where
  "PurchaseOrder_create pid po st =
     (if \<not> po_valid po then Inl ValidationError
      else if pid \<in> fst ` set (purchase_orders st) \<or>
              po_poNumber po \<in> (po_poNumber \<circ> snd) ` set (purchase_orders st)
      then Inl DuplicateKey
      else Inr (st\<lparr>purchase_orders := purchase_orders st @ [(pid, po)]\<rparr>))"

definition create_purchase_order ::
  "env \<Rightarrow> req_user \<Rightarrow> po_body \<Rightarrow> state \<Rightarrow> (error + nat \<times> purchase_order) \<times> state" where
  "create_purchase_order e user body st =
     (if pb_items body = [] then (Inl NoPurchaseOrderItems, st)
      else
        case po_loop st (pb_items body) 0 [] of
          Inl err \<Rightarrow> (Inl err, st)
        | Inr (totalAmount, poItems) \<Rightarrow>
            let po = \<lparr>po_poNumber = generatePONumber e, po_supplier = pb_supplier body,
                      po_items = poItems, po_totalAmount = totalAmount,
                      po_status = ''pending'', po_createdBy = u_id user,
                      po_expectedDeliveryDate = pb_expectedDeliveryDate body,
                      po_receivedDate = None,
                      po_notes = (case pb_notes body of None \<Rightarrow> [] | Some n \<Rightarrow> n),
                      po_createdAt = now e, po_updatedAt = now e\<rparr>
            in (case PurchaseOrder_create (new_id e) po st of
                  Inl x \<Rightarrow> (Inl (ServerError x), st)
                | Inr st' \<Rightarrow> (Inr (new_id e, po), st')))"

text \<open>The stock-crediting loop of \<^verbatim>\<open>PUT /api/purchase-orders/:id/status\<close>.\<close>

fun receive_stock :: "state \<Rightarrow> purchase_order_item list \<Rightarrow> state" where
  "receive_stock st [] = st"
| "receive_stock st (item # rest) =
     (case map_of (products st) (poi_product item) of
        None \<Rightarrow> receive_stock st rest
      | Some product \<Rightarrow>
          receive_stock
            (st\<lparr>products :=
                  AList.update (poi_product item)
                    (product\<lparr>p_stock := p_stock product + poi_quantity item\<rparr>)
                    (products st)\<rparr>)
            rest)"

text \<open>
  \<^verbatim>\<open>PUT /api/purchase-orders/:id/status\<close>. The products are saved inside the loop,
  before the purchase order itself is saved. That last save validates the whole
  document against the schema (the new status, the required supplier, the quantity of
  every item) and then runs the \<^verbatim>\<open>pre('save')\<close> hook, which stamps \<^verbatim>\<open>updatedAt\<close>. When
  the validation fails the handler answers 500: the purchase order stays as it was
  stored, without the new status and received date, and the products credited in the
  loop stay credited.
\<close>

definition update_purchase_order_status ::
  "env \<Rightarrow> nat \<Rightarrow> string \<Rightarrow> state \<Rightarrow> (error + purchase_order) \<times> state" where
  "update_purchase_order_status e pid status st =
     (case map_of (purchase_orders st) pid of
        None \<Rightarrow> (Inl PurchaseOrderNotFound, st)
      | Some purchaseOrder \<Rightarrow>
          let po1 = purchaseOrder\<lparr>po_status := status\<rparr>;
              (po2, st2) =
                (if status = ''received'' \<and> po_receivedDate po1 = None
                 then (po1\<lparr>po_receivedDate := Some (now e)\<rparr>, receive_stock st (po_items po1))
                 else (po1, st))
          in if po_valid po2
             then let po3 = po2\<lparr>po_updatedAt := now e\<rparr>
                  in (Inr po3, st2\<lparr>purchase_orders := AList.update pid po3 (purchase_orders st2)\<rparr>)
             else (Inl (ServerError ValidationError), st2))"

text \<open>
  \<^verbatim>\<open>PUT /api/purchase-orders/:id\<close>. What \<^verbatim>\<open>findByIdAndUpdate\<close> makes of the stored
  document for a given request body, update validators included, is the parameter
  \<open>upd\<close>.
\<close>

definition update_purchase_order ::
  "(purchase_order \<Rightarrow> exn + purchase_order) \<Rightarrow> nat \<Rightarrow> state \<Rightarrow>
     (error + purchase_order) \<times> state" where
  "update_purchase_order upd pid st =
     (case map_of (purchase_orders st) pid of
        None \<Rightarrow> (Inl PurchaseOrderNotFound, st)
      | Some purchaseOrder \<Rightarrow>
          if po_status purchaseOrder = ''received'' then (Inl CannotUpdateReceived, st)
          else (case upd purchaseOrder of
                  Inl x \<Rightarrow> (Inl (ServerError x), st)
                | Inr updatedPO \<Rightarrow>
                    (Inr updatedPO,
                     st\<lparr>purchase_orders := AList.update pid updatedPO (purchase_orders st)\<rparr>)))"

text \<open>\<^verbatim>\<open>DELETE /api/purchase-orders/:id\<close>.\<close>

definition delete_purchase_order :: "nat \<Rightarrow> state \<Rightarrow> (error + unit) \<times> state" where
  "delete_purchase_order pid st =
     (case map_of (purchase_orders st) pid of
        None \<Rightarrow> (Inl PurchaseOrderNotFound, st)
      | Some purchaseOrder \<Rightarrow>
          if po_status purchaseOrder = ''received'' then (Inl CannotDeleteReceived, st)
          else (Inr (), st\<lparr>purchase_orders := AList.delete pid (purchase_orders st)\<rparr>))"

subsection \<open>Observations on the store\<close>

text \<open>The stock of a product, as \<^verbatim>\<open>Product.findById\<close> would show it.\<close>

definition stock_of :: "state \<Rightarrow> nat \<Rightarrow> int option" where
  "stock_of st pid = map_option p_stock (map_of (products st) pid)"

text \<open>The catalog price of a product; 0 stands for a product that does not exist.\<close>

definition catalog_price :: "state \<Rightarrow> nat \<Rightarrow> int" where
  "catalog_price st pid = (case map_of (products st) pid of None \<Rightarrow> 0 | Some p \<Rightarrow> p_price p)"

text \<open>
  The products of a store with the stock of each moved by \<open>d\<close>; names and prices stay.
\<close>

definition adjust_stock :: "(nat \<Rightarrow> int) \<Rightarrow> state \<Rightarrow> nat \<Rightarrow> product option" where
  "adjust_stock d st pid =
     map_option (\<lambda>p. p\<lparr>p_stock := p_stock p + d pid\<rparr>) (map_of (products st) pid)"

text \<open>
  The total quantity that the request items, order lines or purchase-order lines of a
  list hold of one product.
\<close>

definition debited :: "order_item_req list \<Rightarrow> nat \<Rightarrow> int" where
  "debited items pid = sum_list (map ir_quantity (filter (\<lambda>it. ir_product it = pid) items))"

definition restored :: "order_item list \<Rightarrow> nat \<Rightarrow> int" where
  "restored items pid = sum_list (map oi_quantity (filter (\<lambda>it. oi_product it = pid) items))"

definition received :: "purchase_order_item list \<Rightarrow> nat \<Rightarrow> int" where
  "received items pid = sum_list (map poi_quantity (filter (\<lambda>it. poi_product it = pid) items))"

text \<open>
  An order line is the snapshot of a request item: it carries the item's product and
  quantity and the product's name and price in the store.
\<close>

definition snapshot_of :: "state \<Rightarrow> order_item_req \<Rightarrow> order_item \<Rightarrow> bool" where
  "snapshot_of st it oi \<longleftrightarrow>
     (case map_of (products st) (ir_product it) of
        None \<Rightarrow> False
      | Some p \<Rightarrow> oi = \<lparr>oi_product = ir_product it, oi_productName = p_name p,
                         oi_quantity = ir_quantity it, oi_price = p_price p\<rparr>)"

definition line_total :: "order_item \<Rightarrow> int" where
  "line_total oi = oi_price oi * oi_quantity oi"

text \<open>
  The same for a purchase-order line; its unit price is the one sent with the item
  unless that is absent or zero, and the catalog price then.
\<close>

definition po_line_of :: "state \<Rightarrow> po_item_req \<Rightarrow> purchase_order_item \<Rightarrow> bool" where
  "po_line_of st it pi \<longleftrightarrow>
     (case map_of (products st) (pr_product it) of
        None \<Rightarrow> False
      | Some p \<Rightarrow>
          pi = \<lparr>poi_product = pr_product it, poi_productName = p_name p,
                poi_quantity = pr_quantity it,
                poi_unitPrice =
                  (case pr_unitPrice it of
                     None \<Rightarrow> p_price p
                   | Some v \<Rightarrow> if v = 0 then p_price p else v)\<rparr>)"

definition po_line_total :: "purchase_order_item \<Rightarrow> int" where
  "po_line_total pi = poi_unitPrice pi * poi_quantity pi"

text \<open>
  The two failures of an item in the loop of order creation, and what it means for an
  item to fail in a store.
\<close>

definition item_failure :: "error \<Rightarrow> bool" where
  "item_failure err =
     (case err of ProductNotFound _ \<Rightarrow> True | InsufficientStock _ _ \<Rightarrow> True | _ \<Rightarrow> False)"

definition fails_at :: "state \<Rightarrow> order_item_req \<Rightarrow> error \<Rightarrow> bool" where
  "fails_at st item err \<longleftrightarrow>
     (case map_of (products st) (ir_product item) of
        None \<Rightarrow> err = ProductNotFound (ir_product item)
      | Some p \<Rightarrow> p_stock p < ir_quantity item \<and> err = InsufficientStock (p_name p) (p_stock p))"

subsection \<open>Valid stores and sequences of operations\<close>

text \<open>
  A store is valid when no stock is negative and the lines of every stored order and
  purchase order pass the validation of their schema.
\<close>

definition stock_nonneg :: "state \<Rightarrow> bool" where
  "stock_nonneg st \<longleftrightarrow> list_all (\<lambda>(i, p). 0 \<le> p_stock p) (products st)"

definition store_valid :: "state \<Rightarrow> bool" where
  "store_valid st \<longleftrightarrow>
     stock_nonneg st \<and>
     list_all (\<lambda>(i, ord). list_all order_item_valid (o_items ord)) (orders st) \<and>
     list_all (\<lambda>(i, po). list_all po_item_valid (po_items po)) (purchase_orders st)"

text \<open>The operations of the stock-movement core, each with its request.\<close>

datatype core_op =
    CreateOrder env req_user order_body
  | CancelOrder req_user nat
  | UpdateOrderStatus nat string
  | CreatePurchaseOrder env req_user po_body
  | UpdatePurchaseOrderStatus env nat string

fun run_op :: "core_op \<Rightarrow> state \<Rightarrow> state" where
  "run_op (CreateOrder e user body) st = snd (create_order e user body st)"
| "run_op (CancelOrder user oid) st = snd (cancel_order user oid st)"
| "run_op (UpdateOrderStatus oid status) st = snd (update_order_status oid status st)"
| "run_op (CreatePurchaseOrder e user body) st = snd (create_purchase_order e user body st)"
| "run_op (UpdatePurchaseOrderStatus e pid status) st =
     snd (update_purchase_order_status e pid status st)"

fun run_ops :: "core_op list \<Rightarrow> state \<Rightarrow> state" where
  "run_ops [] st = st"
| "run_ops (op # ops) st = run_ops ops (run_op op st)"

subsection \<open>Example stores and requests\<close>

definition demo_store :: state where
  "demo_store =
     \<lparr>products = [(1, \<lparr>p_name = ''bolt'', p_price = 7, p_stock = 10\<rparr>),
                  (2, \<lparr>p_name = ''nut'', p_price = 3, p_stock = 2\<rparr>),
                  (3, \<lparr>p_name = ''gear'', p_price = 5, p_stock = 1\<rparr>)],
      orders = [], purchase_orders = []\<rparr>"

definition demo_env :: env where
  "demo_env = \<lparr>now = 1000, random1000 = 42, new_id = 100\<rparr>"

definition demo_user :: req_user where
  "demo_user = \<lparr>u_id = 7, u_role = ''user''\<rparr>"

definition demo_admin :: req_user where
  "demo_admin = \<lparr>u_id = 1, u_role = ''admin''\<rparr>"

definition three_item_body :: order_body where
  "three_item_body =
     \<lparr>ob_items = [\<lparr>ir_product = 1, ir_quantity = 4, ir_price = None\<rparr>,
                  \<lparr>ir_product = 2, ir_quantity = 1, ir_price = None\<rparr>,
                  \<lparr>ir_product = 3, ir_quantity = 5, ir_price = None\<rparr>],
      ob_shippingAddress = ''dock 4''\<rparr>"

definition four_bolts_body :: order_body where
  "four_bolts_body =
     \<lparr>ob_items = [\<lparr>ir_product = 1, ir_quantity = 4, ir_price = Some 1\<rparr>],
      ob_shippingAddress = ''dock 4''\<rparr>"

definition negative_quantity_body :: order_body where
  "negative_quantity_body =
     \<lparr>ob_items = [\<lparr>ir_product = 2, ir_quantity = - 3, ir_price = None\<rparr>],
      ob_shippingAddress = ''dock 4''\<rparr>"

definition priced_body :: order_body where
  "priced_body =
     \<lparr>ob_items = [\<lparr>ir_product = 1, ir_quantity = 4, ir_price = Some 1\<rparr>,
                  \<lparr>ir_product = 2, ir_quantity = 2, ir_price = None\<rparr>],
      ob_shippingAddress = ''dock 4''\<rparr>"

definition priced_order :: order where
  "priced_order =
     \<lparr>o_orderNumber = generateOrderNumber demo_env, o_user = 7,
      o_items = [\<lparr>oi_product = 1, oi_productName = ''bolt'', oi_quantity = 4, oi_price = 7\<rparr>,
                 \<lparr>oi_product = 2, oi_productName = ''nut'', oi_quantity = 2, oi_price = 3\<rparr>],
      o_totalAmount = 34, o_shippingAddress = ''dock 4'', o_status = ''pending''\<rparr>"

definition demo_order :: order where
  "demo_order =
     \<lparr>o_orderNumber = ''ORD-1000-42'', o_user = 7,
      o_items = [\<lparr>oi_product = 1, oi_productName = ''bolt'', oi_quantity = 4, oi_price = 7\<rparr>],
      o_totalAmount = 28, o_shippingAddress = ''dock 4'', o_status = ''pending''\<rparr>"

definition ordered_store :: state where
  "ordered_store =
     \<lparr>products = [(1, \<lparr>p_name = ''bolt'', p_price = 7, p_stock = 6\<rparr>)],
      orders = [(100, demo_order)], purchase_orders = []\<rparr>"

definition cancelled_store :: state where
  "cancelled_store =
     \<lparr>products = [(1, \<lparr>p_name = ''bolt'', p_price = 7, p_stock = 10\<rparr>)],
      orders = [(100, demo_order\<lparr>o_status := ''cancelled''\<rparr>)], purchase_orders = []\<rparr>"

definition demo_po :: purchase_order where
  "demo_po =
     \<lparr>po_poNumber = ''PO-1000-42'', po_supplier = ''acme'',
      po_items = [\<lparr>poi_product = 1, poi_productName = ''bolt'', poi_quantity = 3,
                   poi_unitPrice = 7\<rparr>],
      po_totalAmount = 21, po_status = ''pending'', po_createdBy = 1,
      po_expectedDeliveryDate = None, po_receivedDate = None, po_notes = [],
      po_createdAt = 1000, po_updatedAt = 1000\<rparr>"

definition po_store :: state where
  "po_store = demo_store\<lparr>purchase_orders := [(5, demo_po)]\<rparr>"

definition unsupplied_store :: state where
  "unsupplied_store = demo_store\<lparr>purchase_orders := [(5, demo_po\<lparr>po_supplier := []\<rparr>)]\<rparr>"

definition received_store :: state where
  "received_store =
     demo_store\<lparr>purchase_orders :=
       [(5, demo_po\<lparr>po_status := ''received'', po_receivedDate := Some 1000\<rparr>)]\<rparr>"

definition zero_price_body :: po_body where
  "zero_price_body =
     \<lparr>pb_supplier = ''acme'',
      pb_items = [\<lparr>pr_product = 1, pr_quantity = 3, pr_unitPrice = Some 0\<rparr>],
      pb_expectedDeliveryDate = None, pb_notes = None\<rparr>"

definition mixed_price_body :: po_body where
  "mixed_price_body =
     \<lparr>pb_supplier = ''acme'',
      pb_items = [\<lparr>pr_product = 1, pr_quantity = 3, pr_unitPrice = Some 6\<rparr>,
                  \<lparr>pr_product = 2, pr_quantity = 2, pr_unitPrice = None\<rparr>],
      pb_expectedDeliveryDate = None, pb_notes = None\<rparr>"

definition mixed_price_po :: purchase_order where
  "mixed_price_po =
     \<lparr>po_poNumber = generatePONumber demo_env, po_supplier = ''acme'',
      po_items = [\<lparr>poi_product = 1, poi_productName = ''bolt'', poi_quantity = 3,
                   poi_unitPrice = 6\<rparr>,
                  \<lparr>poi_product = 2, poi_productName = ''nut'', poi_quantity = 2,
                   poi_unitPrice = 3\<rparr>],
      po_totalAmount = 24, po_status = ''pending'', po_createdBy = 1,
      po_expectedDeliveryDate = None, po_receivedDate = None, po_notes = [],
      po_createdAt = 1000, po_updatedAt = 1000\<rparr>"

definition demo_ops :: "core_op list" where
  "demo_ops =
     [CreateOrder demo_env demo_user three_item_body,
      CreateOrder demo_env demo_user negative_quantity_body,
      CreateOrder demo_env demo_user four_bolts_body,
      UpdateOrderStatus 100 ''processing'',
      CancelOrder demo_user 100,
      UpdatePurchaseOrderStatus demo_env 5 ''received'',
      UpdatePurchaseOrderStatus demo_env 5 ''received'']"

section \<open>Properties\<close>

subsection \<open>Association lists\<close>

lemma list_all_update:
  "list_all P al \<Longrightarrow> P (k, v) \<Longrightarrow> list_all P (AList.update k v al)"
  by (induction al) auto

lemma list_all_lookup:
  "list_all P al \<Longrightarrow> map_of al k = Some v \<Longrightarrow> P (k, v)"
  by (auto simp: list_all_iff dest: map_of_SomeD)

lemma map_of_append_fresh:
  "k \<notin> fst ` set al \<Longrightarrow> map_of (al @ [(k, v)]) k = Some v"
  by (induction al) auto

subsection \<open>What the loops do to the store\<close>

lemma debited_Nil: "debited [] pid = 0"
  by (simp add: debited_def)

lemma debited_Cons:
  "debited (it # items) pid = (if ir_product it = pid then ir_quantity it else 0) + debited items pid"
  by (simp add: debited_def)

lemma restored_Cons:
  "restored (it # items) pid = (if oi_product it = pid then oi_quantity it else 0) + restored items pid"
  by (simp add: restored_def)

lemma received_Cons:
  "received (it # items) pid = (if poi_product it = pid then poi_quantity it else 0) + received items pid"
  by (simp add: received_def)

lemma stock_of_adjust:
  "(\<forall>pid. map_of (products st') pid = adjust_stock d st pid) \<Longrightarrow>
   stock_of st' pid = map_option (\<lambda>s. s + d pid) (stock_of st pid)"
  by (simp add: stock_of_def adjust_stock_def option.map_comp comp_def)

lemma order_loop_effect:
  "order_loop st items t acc = (r, st') \<Longrightarrow>
   \<exists>pre rest. items = pre @ rest \<and>
     (\<forall>pid. map_of (products st') pid = adjust_stock (\<lambda>k. - debited pre k) st pid) \<and>
     orders st' = orders st \<and> purchase_orders st' = purchase_orders st \<and>
     (case r of Inr _ \<Rightarrow> rest = []
      | Inl err \<Rightarrow> \<exists>item rest'. rest = item # rest' \<and> fails_at st' item err)"
proof (induction items arbitrary: st t acc)
  case Nil
  then show ?case by (auto simp: adjust_stock_def debited_Nil option.map_ident)
next
  case (Cons item items)
  show ?case
  proof (cases "map_of (products st) (ir_product item)")
    case None
    with Cons.prems have "r = Inl (ProductNotFound (ir_product item))" "st' = st" by auto
    with None show ?thesis
      by (intro exI[of _ "[]"] exI[of _ "item # items"])
         (simp add: adjust_stock_def debited_Nil option.map_ident fails_at_def)
  next
    case (Some product)
    show ?thesis
    proof (cases "p_stock product < ir_quantity item")
      case True
      with Some Cons.prems have "r = Inl (InsufficientStock (p_name product) (p_stock product))" "st' = st"
        by auto
      with Some True show ?thesis
        by (intro exI[of _ "[]"] exI[of _ "item # items"])
           (simp add: adjust_stock_def debited_Nil option.map_ident fails_at_def)
    next
      case False
      define st1 where "st1 = st\<lparr>products :=
                       AList.update (ir_product item)
                         (product\<lparr>p_stock := p_stock product - ir_quantity item\<rparr>)
                         (products st)\<rparr>"
      from Cons.prems Some False obtain t1 acc1 where "order_loop st1 items t1 acc1 = (r, st')"
        by (auto simp: st1_def)
      from Cons.IH[OF this] obtain pre rest where
        IH: "items = pre @ rest"
          "\<forall>pid. map_of (products st') pid = adjust_stock (\<lambda>k. - debited pre k) st1 pid"
          "orders st' = orders st1" "purchase_orders st' = purchase_orders st1"
          "(case r of Inr _ \<Rightarrow> rest = []
            | Inl err \<Rightarrow> \<exists>item rest'. rest = item # rest' \<and> fails_at st' item err)"
        by blast
      have "\<forall>pid. adjust_stock (\<lambda>k. - debited pre k) st1 pid
                     = adjust_stock (\<lambda>k. - debited (item # pre) k) st pid"
        using Some by (auto simp: adjust_stock_def st1_def update_conv' debited_Cons)
      with IH show ?thesis
        by (intro exI[of _ "item # pre"] exI[of _ rest]) (simp add: st1_def)
    qed
  qed
qed

lemma order_loop_frame:
  "order_loop st items t acc = (r, st') \<Longrightarrow>
   orders st' = orders st \<and> purchase_orders st' = purchase_orders st"
  by (induction items arbitrary: st t acc) (auto split: option.splits if_splits)

lemma restore_stock_effect:
  "(\<forall>pid. map_of (products (restore_stock st items)) pid = adjust_stock (restored items) st pid) \<and>
   orders (restore_stock st items) = orders st \<and>
   purchase_orders (restore_stock st items) = purchase_orders st"
proof (induction items arbitrary: st)
  case Nil
  then show ?case by (simp add: adjust_stock_def restored_def option.map_ident)
next
  case (Cons item items)
  show ?case
  proof (cases "map_of (products st) (oi_product item)")
    case None
    then have "adjust_stock (restored (item # items)) st pid = adjust_stock (restored items) st pid" for pid
      by (cases "pid = oi_product item") (auto simp: adjust_stock_def restored_Cons)
    with None Cons.IH[of st] show ?thesis by simp
  next
    case (Some product)
    define st1 where "st1 = st\<lparr>products :=
                  AList.update (oi_product item)
                    (product\<lparr>p_stock := p_stock product + oi_quantity item\<rparr>)
                    (products st)\<rparr>"
    have "adjust_stock (restored items) st1 pid = adjust_stock (restored (item # items)) st pid" for pid
      using Some by (auto simp: adjust_stock_def st1_def update_conv' restored_Cons)
    with Some Cons.IH[of st1] show ?thesis by (simp add: st1_def)
  qed
qed

lemma receive_stock_effect:
  "(\<forall>pid. map_of (products (receive_stock st items)) pid = adjust_stock (received items) st pid) \<and>
   orders (receive_stock st items) = orders st \<and>
   purchase_orders (receive_stock st items) = purchase_orders st"
proof (induction items arbitrary: st)
  case Nil
  then show ?case by (simp add: adjust_stock_def received_def option.map_ident)
next
  case (Cons item items)
  show ?case
  proof (cases "map_of (products st) (poi_product item)")
    case None
    then have "adjust_stock (received (item # items)) st pid = adjust_stock (received items) st pid" for pid
      by (cases "pid = poi_product item") (auto simp: adjust_stock_def received_Cons)
    with None Cons.IH[of st] show ?thesis by simp
  next
    case (Some product)
    define st1 where "st1 = st\<lparr>products :=
                  AList.update (poi_product item)
                    (product\<lparr>p_stock := p_stock product + poi_quantity item\<rparr>)
                    (products st)\<rparr>"
    have "adjust_stock (received items) st1 pid = adjust_stock (received (item # items)) st pid" for pid
      using Some by (auto simp: adjust_stock_def st1_def update_conv' received_Cons)
    with Some Cons.IH[of st1] show ?thesis by (simp add: st1_def)
  qed
qed

subsection \<open>What the loops compute\<close>

lemma snapshot_of_stock_update:
  assumes "map_of (products st) k = Some p"
  shows "snapshot_of (st\<lparr>products := AList.update k (p\<lparr>p_stock := s\<rparr>) (products st)\<rparr>) it oi
         = snapshot_of st it oi"
  using assms by (simp add: snapshot_of_def update_conv')

lemma order_loop_items:
  "order_loop st items t acc = (Inr (t', acc'), st') \<Longrightarrow>
   \<exists>snap. acc' = acc @ snap \<and> list_all2 (snapshot_of st) items snap \<and>
          t' = t + sum_list (map line_total snap)"
proof (induction items arbitrary: st t acc)
  case Nil
  then show ?case by simp
next
  case (Cons item items)
  from Cons.prems obtain product where
    P: "map_of (products st) (ir_product item) = Some product"
    by (auto split: option.splits)
  from Cons.prems P have S: "\<not> p_stock product < ir_quantity item"
    by (auto split: if_splits)
  define st1 where "st1 = st\<lparr>products :=
                       AList.update (ir_product item)
                         (product\<lparr>p_stock := p_stock product - ir_quantity item\<rparr>)
                         (products st)\<rparr>"
  define oi where "oi = \<lparr>oi_product = ir_product item, oi_productName = p_name product,
                      oi_quantity = ir_quantity item, oi_price = p_price product\<rparr>"
  from Cons.prems P S have
    "order_loop st1 items (t + p_price product * ir_quantity item) (acc @ [oi]) = (Inr (t', acc'), st')"
    by (simp add: st1_def oi_def)
  from Cons.IH[OF this] obtain snap where
    IH: "acc' = (acc @ [oi]) @ snap" "list_all2 (snapshot_of st1) items snap"
        "t' = t + p_price product * ir_quantity item + sum_list (map line_total snap)"
    by blast
  have "snapshot_of st1 = snapshot_of st"
    unfolding st1_def using snapshot_of_stock_update[OF P] by (intro ext) simp
  moreover have "snapshot_of st item oi"
    using P by (simp add: snapshot_of_def oi_def)
  moreover have "line_total oi = p_price product * ir_quantity item"
    by (simp add: line_total_def oi_def)
  ultimately show ?case using IH
    by (intro exI[of _ "oi # snap"]) simp
qed

lemma snapshot_line_totals:
  "list_all2 (snapshot_of st) items snap \<Longrightarrow>
   map line_total snap = map (\<lambda>it. catalog_price st (ir_product it) * ir_quantity it) items"
  by (induction rule: list_all2_induct)
     (auto simp: snapshot_of_def line_total_def catalog_price_def split: option.splits)

lemma order_loop_ignores_price:
  "order_loop st (map (\<lambda>it. it\<lparr>ir_price := f it\<rparr>) items) t acc = order_loop st items t acc"
  by (induction items arbitrary: st t acc) (auto split: option.splits)

lemma po_loop_items:
  "po_loop st items t acc = Inr (t', acc') \<Longrightarrow>
   \<exists>lines. acc' = acc @ lines \<and> list_all2 (po_line_of st) items lines \<and>
           t' = t + sum_list (map po_line_total lines)"
proof (induction items arbitrary: t acc)
  case Nil
  then show ?case by simp
next
  case (Cons item items)
  from Cons.prems obtain product where
    P: "map_of (products st) (pr_product item) = Some product"
    by (auto split: option.splits)
  define pi where "pi = \<lparr>poi_product = pr_product item, poi_productName = p_name product,
                 poi_quantity = pr_quantity item,
                 poi_unitPrice = unitPrice_or (pr_unitPrice item) (p_price product)\<rparr>"
  from Cons.prems P have
    "po_loop st items (t + unitPrice_or (pr_unitPrice item) (p_price product) * pr_quantity item)
       (acc @ [pi]) = Inr (t', acc')"
    by (simp add: pi_def)
  from Cons.IH[OF this] obtain lines where
    IH: "acc' = (acc @ [pi]) @ lines" "list_all2 (po_line_of st) items lines"
        "t' = t + unitPrice_or (pr_unitPrice item) (p_price product) * pr_quantity item
                + sum_list (map po_line_total lines)"
    by blast
  have "po_line_of st item pi"
    using P by (simp add: po_line_of_def pi_def unitPrice_or_def)
  moreover have "po_line_total pi = unitPrice_or (pr_unitPrice item) (p_price product) * pr_quantity item"
    by (simp add: po_line_total_def pi_def)
  ultimately show ?case using IH
    by (intro exI[of _ "pi # lines"]) simp
qed

subsection \<open>Valid stores stay valid\<close>

lemma stock_nonneg_frame:
  "stock_nonneg (st\<lparr>orders := os\<rparr>) = stock_nonneg st"
  "stock_nonneg (st\<lparr>purchase_orders := ps\<rparr>) = stock_nonneg st"
  by (simp_all add: stock_nonneg_def)

lemma order_loop_stock_nonneg:
  "order_loop st items t acc = (r, st') \<Longrightarrow> stock_nonneg st \<Longrightarrow> stock_nonneg st'"
proof (induction items arbitrary: st t acc)
  case Nil
  then show ?case by simp
next
  case (Cons item items)
  show ?case
  proof (cases "map_of (products st) (ir_product item)")
    case None
    with Cons.prems show ?thesis by simp
  next
    case (Some product)
    show ?thesis
    proof (cases "p_stock product < ir_quantity item")
      case True
      with Some Cons.prems show ?thesis by simp
    next
      case False
      define st1 where "st1 = st\<lparr>products :=
                       AList.update (ir_product item)
                         (product\<lparr>p_stock := p_stock product - ir_quantity item\<rparr>)
                         (products st)\<rparr>"
      from False Cons.prems(2) have "stock_nonneg st1"
        by (simp add: stock_nonneg_def st1_def list_all_update)
      moreover from Cons.prems(1) Some False obtain t1 acc1 where
        "order_loop st1 items t1 acc1 = (r, st')"
        by (auto simp: st1_def)
      ultimately show ?thesis by (rule Cons.IH[rotated])
    qed
  qed
qed

lemma restore_stock_nonneg:
  "stock_nonneg st \<Longrightarrow> list_all order_item_valid items \<Longrightarrow> stock_nonneg (restore_stock st items)"
proof (induction items arbitrary: st)
  case Nil
  then show ?case by simp
next
  case (Cons item items)
  show ?case
  proof (cases "map_of (products st) (oi_product item)")
    case None
    with Cons show ?thesis by simp
  next
    case (Some product)
    from Cons.prems(1) Some have "0 \<le> p_stock product"
      unfolding stock_nonneg_def by (auto dest: list_all_lookup)
    moreover from Cons.prems(2) have "1 \<le> oi_quantity item"
      by (simp add: order_item_valid_def)
    ultimately have "stock_nonneg (st\<lparr>products :=
                  AList.update (oi_product item)
                    (product\<lparr>p_stock := p_stock product + oi_quantity item\<rparr>)
                    (products st)\<rparr>)"
      using Cons.prems(1) by (simp add: stock_nonneg_def list_all_update)
    with Cons.IH Cons.prems(2) Some show ?thesis by simp
  qed
qed

lemma receive_stock_nonneg:
  "stock_nonneg st \<Longrightarrow> list_all po_item_valid items \<Longrightarrow> stock_nonneg (receive_stock st items)"
proof (induction items arbitrary: st)
  case Nil
  then show ?case by simp
next
  case (Cons item items)
  show ?case
  proof (cases "map_of (products st) (poi_product item)")
    case None
    with Cons show ?thesis by simp
  next
    case (Some product)
    from Cons.prems(1) Some have "0 \<le> p_stock product"
      unfolding stock_nonneg_def by (auto dest: list_all_lookup)
    moreover from Cons.prems(2) have "1 \<le> poi_quantity item"
      by (simp add: po_item_valid_def)
    ultimately have "stock_nonneg (st\<lparr>products :=
                  AList.update (poi_product item)
                    (product\<lparr>p_stock := p_stock product + poi_quantity item\<rparr>)
                    (products st)\<rparr>)"
      using Cons.prems(1) by (simp add: stock_nonneg_def list_all_update)
    with Cons.IH Cons.prems(2) Some show ?thesis by simp
  qed
qed

lemma create_order_valid: "store_valid st \<Longrightarrow> store_valid (snd (create_order e user body st))"
proof -
  assume V: "store_valid st"
  show ?thesis
  proof (cases "ob_items body = []")
    case True
    with V show ?thesis by (simp add: create_order_def)
  next
    case False
    obtain r st' where L: "order_loop st (ob_items body) 0 [] = (r, st')"
      by (cases "order_loop st (ob_items body) 0 []") auto
    from order_loop_stock_nonneg[OF L] order_loop_frame[OF L] V have V': "store_valid st'"
      by (simp add: store_valid_def)
    show ?thesis
    proof (cases r)
      case (Inl err)
      with False L V' show ?thesis by (simp add: create_order_def)
    next
      case (Inr res)
      with False L V' show ?thesis
        by (cases res)
           (auto simp: create_order_def Order_create_def order_status_default_def Let_def store_valid_def stock_nonneg_def
                       order_valid_def)
    qed
  qed
qed

lemma cancel_order_valid: "store_valid st \<Longrightarrow> store_valid (snd (cancel_order user oid st))"
proof -
  assume V: "store_valid st"
  show ?thesis
  proof (cases "map_of (orders st) oid")
    case None
    with V show ?thesis by (simp add: cancel_order_def)
  next
    case (Some ord)
    from V Some have I: "list_all order_item_valid (o_items ord)"
      unfolding store_valid_def by (auto dest: list_all_lookup)
    with V have "stock_nonneg (restore_stock st (o_items ord))"
      by (simp add: store_valid_def restore_stock_nonneg)
    with V I Some restore_stock_effect[of st "o_items ord"] show ?thesis
      by (simp add: cancel_order_def Let_def store_valid_def list_all_update stock_nonneg_frame)
  qed
qed

lemma update_order_status_products:
  "products (snd (update_order_status oid status st)) = products st \<and>
   purchase_orders (snd (update_order_status oid status st)) = purchase_orders st"
  by (simp add: update_order_status_def Let_def split: option.splits)

lemma update_order_status_valid:
  "store_valid st \<Longrightarrow> store_valid (snd (update_order_status oid status st))"
proof -
  assume V: "store_valid st"
  show ?thesis
  proof (cases "map_of (orders st) oid")
    case None
    with V show ?thesis by (simp add: update_order_status_def)
  next
    case (Some ord)
    from V Some have I: "list_all order_item_valid (o_items ord)"
      unfolding store_valid_def by (auto dest: list_all_lookup)
    with V Some show ?thesis
      by (simp add: update_order_status_def Let_def store_valid_def list_all_update stock_nonneg_def)
  qed
qed

lemma create_purchase_order_valid:
  "store_valid st \<Longrightarrow> store_valid (snd (create_purchase_order e user body st))"
  by (auto simp: create_purchase_order_def PurchaseOrder_create_def order_status_default_def Let_def store_valid_def
                 stock_nonneg_def po_valid_def split: sum.splits prod.splits)

lemma update_purchase_order_status_valid:
  "store_valid st \<Longrightarrow> store_valid (snd (update_purchase_order_status e pid status st))"
proof -
  assume V: "store_valid st"
  show ?thesis
  proof (cases "map_of (purchase_orders st) pid")
    case None
    with V show ?thesis by (simp add: update_purchase_order_status_def)
  next
    case (Some po)
    from V Some have I: "list_all po_item_valid (po_items po)"
      unfolding store_valid_def by (auto dest: list_all_lookup)
    with V have "stock_nonneg (receive_stock st (po_items po))"
      by (simp add: store_valid_def receive_stock_nonneg)
    with V I Some receive_stock_effect[of st "po_items po"] show ?thesis
      by (simp add: update_purchase_order_status_def Let_def store_valid_def list_all_update
            stock_nonneg_frame)
  qed
qed

lemma run_op_valid: "store_valid st \<Longrightarrow> store_valid (run_op op st)"
  by (cases op)
     (simp_all add: create_order_valid cancel_order_valid update_order_status_valid
        create_purchase_order_valid update_purchase_order_status_valid)

text \<open>
  An order for one product is created when the quantity is at least 1 and within the
  stock, and the id and the generated number are new.
\<close>

lemma create_order_single_succeeds:
  assumes "ob_items body = [\<lparr>ir_product = k, ir_quantity = q, ir_price = pr\<rparr>]"
    and "map_of (products st) k = Some p"
    and "1 \<le> q" and "q \<le> p_stock p"
    and "new_id e \<notin> fst ` set (orders st)"
    and "generateOrderNumber e \<notin> (o_orderNumber \<circ> snd) ` set (orders st)"
  shows "\<exists>ord. fst (create_order e user body st) = Inr (new_id e, ord)"
  using assms
  by (simp add: create_order_def Order_create_def order_status_default_def order_valid_def order_status_enum_def
        order_item_valid_def Let_def)

section \<open>The claims\<close>

subsection \<open>C1: a failed order creation and the items before the failing one\<close>

text \<open>
  C1 as the specification states it does not hold of the handler. In the example an
  order of three items fails on the third for insufficient stock, and the stock of the
  first two products stays reduced: from 10 to 6 and from 2 to 1.
\<close>

theorem create_order_partial_debit_counterexample:
  "fst (create_order demo_env demo_user three_item_body demo_store)
     = Inl (InsufficientStock ''gear'' 1) \<and>
   stock_of demo_store 1 = Some 10 \<and>
   stock_of (snd (create_order demo_env demo_user three_item_body demo_store)) 1 = Some 6 \<and>
   stock_of demo_store 2 = Some 2 \<and>
   stock_of (snd (create_order demo_env demo_user three_item_body demo_store)) 2 = Some 1"
  by (simp add: create_order_def three_item_body_def demo_store_def stock_of_def)

text \<open>
  C1, amended: when order creation fails at an item (product not found, or insufficient
  stock), the request is answered with that failure, no order is stored, and the items
  before the failing one stay debited: every product's stock is its stock before the
  request minus the quantities of the earlier items that reference it. So a product
  that no earlier item references keeps its stock, and the others do not get theirs
  back.
\<close>

theorem create_order_failure_keeps_earlier_debits:
  assumes "create_order e user body st = (Inl err, st')"
    and "item_failure err"
  shows "\<exists>pre item rest.
           ob_items body = pre @ item # rest \<and> fails_at st' item err \<and>
           (\<forall>pid. stock_of st' pid = map_option (\<lambda>s. s - debited pre pid) (stock_of st pid)) \<and>
           (\<forall>pid. debited pre pid = 0 \<longrightarrow> stock_of st' pid = stock_of st pid) \<and>
           orders st' = orders st \<and> purchase_orders st' = purchase_orders st"
proof -
  from assms have NE: "ob_items body \<noteq> []"
    by (auto simp: create_order_def item_failure_def)
  obtain r st1 where L: "order_loop st (ob_items body) 0 [] = (r, st1)"
    by (cases "order_loop st (ob_items body) 0 []") auto
  from assms NE L have R: "r = Inl err" "st1 = st'"
    by (auto simp: create_order_def Let_def item_failure_def split: sum.splits prod.splits)
  from order_loop_effect[OF L] R obtain pre rest where
    E: "ob_items body = pre @ rest" "\<exists>item rest'. rest = item # rest' \<and> fails_at st' item err"
       "\<forall>pid. map_of (products st') pid = adjust_stock (\<lambda>k. - debited pre k) st pid"
       "orders st' = orders st" "purchase_orders st' = purchase_orders st"
    by auto
  from E(2) obtain item rest' where "rest = item # rest'" "fails_at st' item err" by blast
  moreover have "stock_of st' pid = map_option (\<lambda>s. s - debited pre pid) (stock_of st pid)" for pid
    using stock_of_adjust[OF E(3), of pid] by simp
  moreover have "debited pre pid = 0 \<longrightarrow> stock_of st' pid = stock_of st pid" for pid
    using stock_of_adjust[OF E(3), of pid] by (simp add: option.map_ident)
  ultimately show ?thesis using E by blast
qed

theorem create_order_failure_keeps_earlier_debits_witness:
  "item_failure (InsufficientStock ''gear'' 1) \<and>
   (\<exists>pre item rest.
      ob_items three_item_body = pre @ item # rest \<and>
      fails_at (snd (create_order demo_env demo_user three_item_body demo_store)) item
        (InsufficientStock ''gear'' 1) \<and>
      (\<forall>pid. stock_of (snd (create_order demo_env demo_user three_item_body demo_store)) pid
              = map_option (\<lambda>s. s - debited pre pid) (stock_of demo_store pid)) \<and>
      (\<forall>pid. debited pre pid = 0 \<longrightarrow>
              stock_of (snd (create_order demo_env demo_user three_item_body demo_store)) pid
              = stock_of demo_store pid) \<and>
      orders (snd (create_order demo_env demo_user three_item_body demo_store)) = orders demo_store \<and>
      purchase_orders (snd (create_order demo_env demo_user three_item_body demo_store))
        = purchase_orders demo_store)"
proof -
  have F: "item_failure (InsufficientStock ''gear'' 1)"
    by (simp add: item_failure_def)
  have C: "create_order demo_env demo_user three_item_body demo_store
             = (Inl (InsufficientStock ''gear'' 1),
                snd (create_order demo_env demo_user three_item_body demo_store))"
    by (simp add: create_order_def three_item_body_def demo_store_def)
  from create_order_failure_keeps_earlier_debits[OF C F] F show ?thesis by blast
qed

subsection \<open>C2: no stock is ever negative\<close>

text \<open>
  C2: from a valid store, after any sequence of the core operations (order creation,
  cancellation, order status update, purchase-order creation, purchase-order status
  update), failed ones included, the store is valid again; in particular the stock of
  every product is an integer that is at least 0.
\<close>

theorem core_ops_keep_stock_nonneg:
  "store_valid st \<Longrightarrow>
   store_valid (run_ops ops st) \<and>
   (\<forall>pid s. stock_of (run_ops ops st) pid = Some s \<longrightarrow> 0 \<le> s)"
proof (induction ops arbitrary: st)
  case Nil
  then show ?case
    by (auto simp: store_valid_def stock_nonneg_def stock_of_def dest!: list_all_lookup)
next
  case (Cons op ops)
  from Cons.prems have "store_valid (run_op op st)" by (rule run_op_valid)
  from Cons.IH[OF this] show ?case by simp
qed

theorem core_ops_keep_stock_nonneg_witness:
  "store_valid po_store \<and>
   store_valid (run_ops demo_ops po_store) \<and>
   stock_of (run_ops demo_ops po_store) 1 = Some 9 \<and>
   stock_of (run_ops demo_ops po_store) 2 = Some 4 \<and>
   stock_of (run_ops demo_ops po_store) 3 = Some 1"
proof -
  have V: "store_valid po_store"
    by (simp add: store_valid_def stock_nonneg_def po_store_def demo_store_def demo_po_def
          po_item_valid_def)
  have S: "products (run_ops demo_ops po_store)
             = [(1, \<lparr>p_name = ''bolt'', p_price = 7, p_stock = 9\<rparr>),
                (2, \<lparr>p_name = ''nut'', p_price = 3, p_stock = 4\<rparr>),
                (3, \<lparr>p_name = ''gear'', p_price = 5, p_stock = 1\<rparr>)]"
    by (simp add: demo_ops_def po_store_def demo_store_def demo_po_def demo_env_def
          demo_user_def three_item_body_def negative_quantity_body_def four_bolts_body_def
          create_order_def cancel_order_def update_order_status_def
          update_purchase_order_status_def Order_create_def order_status_default_def
          order_valid_def order_status_enum_def po_valid_def po_status_enum_def
          order_item_valid_def po_item_valid_def Let_def)
  from core_ops_keep_stock_nonneg[OF V, of demo_ops] V S show ?thesis
    by (simp add: stock_of_def)
qed

subsection \<open>C3: receiving a purchase order twice\<close>

text \<open>
  Outside the schema the guard does not hold: for a stored purchase order without a
  supplier the final save fails after the products were credited, the received date is
  never stored, and every further call credits again (here 10, 13, 16).
\<close>

lemma receive_unsupplied_purchase_order:
  "fst (update_purchase_order_status demo_env 5 ''received'' unsupplied_store)
     = Inl (ServerError ValidationError) \<and>
   purchase_orders (snd (update_purchase_order_status demo_env 5 ''received'' unsupplied_store))
     = purchase_orders unsupplied_store \<and>
   stock_of unsupplied_store 1 = Some 10 \<and>
   stock_of (snd (update_purchase_order_status demo_env 5 ''received'' unsupplied_store)) 1
     = Some 13 \<and>
   stock_of (snd (update_purchase_order_status demo_env 5 ''received''
                    (snd (update_purchase_order_status demo_env 5 ''received''
                            unsupplied_store)))) 1
     = Some 16"
  by (simp add: update_purchase_order_status_def unsupplied_store_def demo_store_def demo_po_def
        po_valid_def stock_of_def Let_def)



subsection \<open>C4: an order created and then cancelled\<close>

text \<open>
  C4: when an order for quantity \<open>q\<close> of one product with stock \<open>s\<close>, \<open>q \<le> s\<close>, has been
  created, the stock is \<open>s - q\<close>; cancelling that order, as its owner or as an admin,
  succeeds and brings the stock back to exactly \<open>s\<close>, and every other product is where
  it was.
\<close>

theorem order_then_cancel_restores_stock:
  assumes "ob_items body = [\<lparr>ir_product = k, ir_quantity = q, ir_price = pr\<rparr>]"
    and "map_of (products st) k = Some p"
    and "q \<le> p_stock p"
    and "fst (create_order e user body st) = Inr (oid, ord)"
    and "u_role canceller = ''admin'' \<or> u_id canceller = u_id user"
  shows "let st1 = snd (create_order e user body st);
             st2 = snd (cancel_order canceller oid st1)
         in stock_of st1 k = Some (p_stock p - q) \<and>
            fst (cancel_order canceller oid st1) = Inr () \<and>
            stock_of st2 k = Some (p_stock p) \<and>
            (\<forall>j. stock_of st2 j = stock_of st j)"
proof -
  define item where "item = \<lparr>ir_product = k, ir_quantity = q, ir_price = pr\<rparr>"
  define st0 where "st0 = st\<lparr>products := AList.update k (p\<lparr>p_stock := p_stock p - q\<rparr>) (products st)\<rparr>"
  define oi where "oi = \<lparr>oi_product = k, oi_productName = p_name p, oi_quantity = q, oi_price = p_price p\<rparr>"
  define st1 where "st1 = snd (create_order e user body st)"
  define st2 where "st2 = snd (cancel_order canceller oid st1)"
  from assms(1-3) have L: "order_loop st (ob_items body) 0 [] = (Inr (p_price p * q, [oi]), st0)"
    by (simp add: st0_def oi_def)
  from assms(1,4) L have
    O: "ord = \<lparr>o_orderNumber = generateOrderNumber e, o_user = u_id user,
               o_items = [oi], o_totalAmount = p_price p * q,
               o_shippingAddress = ob_shippingAddress body, o_status = ''pending''\<rparr>"
       "oid = new_id e" "oid \<notin> fst ` set (orders st)"
       "st1 = st0\<lparr>orders := orders st @ [(oid, ord)]\<rparr>"
    by (auto simp: st1_def create_order_def Order_create_def order_status_default_def Let_def st0_def split: if_splits)
  from O(3) have "map_of (orders st @ [(oid, ord)]) oid = Some ord"
    by (rule map_of_append_fresh)
  with O(4) have F: "map_of (orders st1) oid = Some ord"
    by (simp del: map_of_append)
  have K1: "map_of (products st1) k = Some (p\<lparr>p_stock := p_stock p - q\<rparr>)"
    using O(4) by (simp add: st0_def update_conv')
  then have A: "stock_of st1 k = Some (p_stock p - q)"
    by (simp add: stock_of_def)
  from F O(1) assms(5) K1 have
    C: "cancel_order canceller oid st1 =
          (Inr (), st1\<lparr>products := AList.update k p (products st1),
                       orders := AList.update oid (ord\<lparr>o_status := ''cancelled''\<rparr>) (orders st1)\<rparr>)"
    by (auto simp: cancel_order_def Let_def oi_def)
  then have "map_of (products st2) = (map_of (products st1))(k \<mapsto> p)"
    by (simp add: st2_def update_conv')
  also have "\<dots> = map_of (products st)"
    using O(4) assms(2) by (auto simp: st0_def update_conv')
  finally have "\<forall>j. stock_of st2 j = stock_of st j"
    by (simp add: stock_of_def)
  moreover from this assms(2) have "stock_of st2 k = Some (p_stock p)"
    by (simp add: stock_of_def)
  moreover from C have "fst (cancel_order canceller oid st1) = Inr ()" by simp
  ultimately show ?thesis using A
    unfolding Let_def st1_def[symmetric] st2_def[symmetric] by blast
qed

theorem order_then_cancel_restores_stock_witness:
  "fst (create_order demo_env demo_user four_bolts_body demo_store)
     = Inr (100, demo_order\<lparr>o_orderNumber := generateOrderNumber demo_env\<rparr>) \<and>
   stock_of demo_store 1 = Some 10 \<and>
   stock_of (snd (create_order demo_env demo_user four_bolts_body demo_store)) 1 = Some 6 \<and>
   stock_of (snd (cancel_order demo_user 100
                    (snd (create_order demo_env demo_user four_bolts_body demo_store)))) 1
     = Some 10"
proof -
  have H: "fst (create_order demo_env demo_user four_bolts_body demo_store)
          = Inr (100, demo_order\<lparr>o_orderNumber := generateOrderNumber demo_env\<rparr>)"
    by (simp add: create_order_def four_bolts_body_def demo_store_def demo_env_def demo_user_def
          demo_order_def Order_create_def order_status_default_def order_valid_def
          order_status_enum_def order_item_valid_def Let_def)
  with order_then_cancel_restores_stock
         [of four_bolts_body 1 4 "Some 1" demo_store
             "\<lparr>p_name = ''bolt'', p_price = 7, p_stock = 10\<rparr>" demo_env demo_user 100
             "demo_order\<lparr>o_orderNumber := generateOrderNumber demo_env\<rparr>" demo_user]
  show ?thesis
    by (simp add: four_bolts_body_def demo_store_def stock_of_def Let_def)
qed

subsection \<open>C5: a cancelled order\<close>

text \<open>
  C5 as the specification states it does not hold of the handlers: the status update
  overwrites any status, so a cancelled order can be set back to \<^verbatim>\<open>pending\<close> and
  cancelled a second time, which credits its quantities again. In the example the stock
  of the product goes from 10 to 14.
\<close>

theorem cancelled_order_reopened_counterexample:
  "map_option o_status (map_of (orders cancelled_store) 100) = Some ''cancelled'' \<and>
   stock_of cancelled_store 1 = Some 10 \<and>
   stock_of (run_ops [UpdateOrderStatus 100 ''pending'', CancelOrder demo_user 100]
               cancelled_store) 1 = Some 14"
  by (simp add: cancelled_store_def demo_order_def demo_user_def stock_of_def
        update_order_status_def cancel_order_def order_status_enum_def Let_def)

text \<open>
  C5, amended: while the status of an order is \<^verbatim>\<open>cancelled\<close>, no single operation on
  that order changes a stock: cancelling it is refused (403 for a stranger, 400
  otherwise) and leaves the store as it is, and a status update leaves every product as
  it is. The status update may take the order out of \<^verbatim>\<open>cancelled\<close>; nothing is said of
  the operations after that.
\<close>

theorem cancelled_order_single_operation:
  assumes "map_of (orders st) oid = Some ord"
    and "o_status ord = ''cancelled''"
  shows "cancel_order user oid st =
           (Inl (if u_role user \<noteq> ''admin'' \<and> o_user ord \<noteq> u_id user
                 then NotAuthorizedToCancel else CannotCancelInCurrentStatus), st) \<and>
         products (snd (update_order_status oid status st)) = products st"
  using assms update_order_status_products[of oid status st]
  by (simp add: cancel_order_def)

theorem cancelled_order_single_operation_witness:
  "map_option o_status (map_of (orders cancelled_store) 100) = Some ''cancelled'' \<and>
   cancel_order demo_user 100 cancelled_store = (Inl CannotCancelInCurrentStatus, cancelled_store) \<and>
   cancel_order demo_admin 100 cancelled_store = (Inl CannotCancelInCurrentStatus, cancelled_store) \<and>
   products (snd (update_order_status 100 ''pending'' cancelled_store)) = products cancelled_store"
proof -
  have H: "map_of (orders cancelled_store) 100 = Some (demo_order\<lparr>o_status := ''cancelled''\<rparr>)"
    by (simp add: cancelled_store_def)
  from cancelled_order_single_operation[OF H, of demo_user "''pending''"]
       cancelled_order_single_operation[OF H, of demo_admin "''pending''"] H
  show ?thesis
    by (simp add: demo_order_def demo_user_def demo_admin_def)
qed

subsection \<open>C6: the total and the lines of a created order\<close>

text \<open>
  C6: a created order is stored under its id; each of its lines is the snapshot of the
  request item at the same position, with the product's name and catalog price; its
  total is the sum over the lines of price times quantity, which is the sum over the
  request items of catalog price times quantity; and a price sent with an item has no
  influence on the outcome.
\<close>

theorem create_order_total_and_snapshots:
  assumes "create_order e user body st = (Inr (oid, ord), st')"
  shows "map_of (orders st') oid = Some ord \<and>
         list_all2 (snapshot_of st) (ob_items body) (o_items ord) \<and>
         o_totalAmount ord = sum_list (map line_total (o_items ord)) \<and>
         o_totalAmount ord
           = sum_list (map (\<lambda>it. catalog_price st (ir_product it) * ir_quantity it) (ob_items body)) \<and>
         create_order e user (body\<lparr>ob_items := map (\<lambda>it. it\<lparr>ir_price := f it\<rparr>) (ob_items body)\<rparr>) st
           = create_order e user body st"
proof -
  from assms have NE: "ob_items body \<noteq> []"
    by (auto simp: create_order_def)
  obtain r st1 where L: "order_loop st (ob_items body) 0 [] = (r, st1)"
    by (cases "order_loop st (ob_items body) 0 []") auto
  from assms NE L obtain t its where R: "r = Inr (t, its)"
    by (cases r) (auto simp: create_order_def)
  from assms NE L R have
    O: "o_items ord = its" "o_totalAmount ord = t" "oid \<notin> fst ` set (orders st1)"
       "st' = st1\<lparr>orders := orders st1 @ [(oid, ord)]\<rparr>"
    by (auto simp: create_order_def Order_create_def order_status_default_def Let_def split: if_splits)
  from O(3) have "map_of (orders st1 @ [(oid, ord)]) oid = Some ord"
    by (rule map_of_append_fresh)
  with O(4) have F: "map_of (orders st') oid = Some ord"
    by (simp del: map_of_append)
  from order_loop_items[OF L[unfolded R]] O(1,2) have
    S: "list_all2 (snapshot_of st) (ob_items body) (o_items ord)"
       "o_totalAmount ord = sum_list (map line_total (o_items ord))"
    by auto
  from S(2) snapshot_line_totals[OF S(1)] have
    T: "o_totalAmount ord
          = sum_list (map (\<lambda>it. catalog_price st (ir_product it) * ir_quantity it) (ob_items body))"
    by simp
  have "create_order e user (body\<lparr>ob_items := map (\<lambda>it. it\<lparr>ir_price := f it\<rparr>) (ob_items body)\<rparr>) st
          = create_order e user body st"
    by (simp add: create_order_def order_loop_ignores_price Let_def split: prod.splits sum.splits)
  with F S T show ?thesis by blast
qed

theorem create_order_total_and_snapshots_witness:
  "fst (create_order demo_env demo_user priced_body demo_store) = Inr (100, priced_order) \<and>
   o_totalAmount priced_order = 7 * 4 + 3 * 2 \<and>
   map_of (orders (snd (create_order demo_env demo_user priced_body demo_store))) 100
     = Some priced_order"
proof -
  have H: "fst (create_order demo_env demo_user priced_body demo_store) = Inr (100, priced_order)"
    by (simp add: create_order_def priced_body_def demo_store_def demo_env_def demo_user_def
          priced_order_def Order_create_def order_status_default_def order_valid_def order_status_enum_def
          order_item_valid_def Let_def)
  then have C: "create_order demo_env demo_user priced_body demo_store
          = (Inr (100, priced_order), snd (create_order demo_env demo_user priced_body demo_store))"
    by (simp add: prod_eq_iff)
  from create_order_total_and_snapshots[OF C, of "\<lambda>it. None"] H show ?thesis
    by (simp add: priced_order_def)
qed

subsection \<open>C7: the unit prices and the total of a created purchase order\<close>

text \<open>
  C7 as the specification states it does not hold of the handler: a unit price of 0
  sent by the client is present, yet the line gets the catalog price. In the example the
  client sends 0 for 3 units of a product whose catalog price is 7; the line has unit
  price 7 and the total is 21.
\<close>

theorem create_purchase_order_zero_price_counterexample:
  "map pr_unitPrice (pb_items zero_price_body) = [Some 0] \<and>
   (case fst (create_purchase_order demo_env demo_admin zero_price_body demo_store) of
      Inl err \<Rightarrow> False
    | Inr (pid, po) \<Rightarrow> map poi_unitPrice (po_items po) = [7] \<and> po_totalAmount po = 21)"
  by (simp add: zero_price_body_def create_purchase_order_def demo_store_def demo_env_def
        demo_admin_def PurchaseOrder_create_def order_status_default_def po_valid_def po_status_enum_def po_item_valid_def
        unitPrice_or_def Let_def)

text \<open>
  C7, amended: a created purchase order is stored under its id; the unit price of each
  line is the price sent with the item when there is one and it is not 0, and the
  product's catalog price otherwise; the total is the sum over the lines of unit price
  times quantity.
\<close>

theorem create_purchase_order_total_and_prices:
  assumes "create_purchase_order e user body st = (Inr (pid, po), st')"
  shows "map_of (purchase_orders st') pid = Some po \<and>
         list_all2 (po_line_of st) (pb_items body) (po_items po) \<and>
         po_totalAmount po = sum_list (map po_line_total (po_items po))"
proof -
  from assms have NE: "pb_items body \<noteq> []"
    by (auto simp: create_purchase_order_def)
  from assms NE obtain t its where L: "po_loop st (pb_items body) 0 [] = Inr (t, its)"
    by (cases "po_loop st (pb_items body) 0 []") (auto simp: create_purchase_order_def)
  from assms NE L have
    O: "po_items po = its" "po_totalAmount po = t" "pid \<notin> fst ` set (purchase_orders st)"
       "st' = st\<lparr>purchase_orders := purchase_orders st @ [(pid, po)]\<rparr>"
    by (auto simp: create_purchase_order_def PurchaseOrder_create_def order_status_default_def Let_def split: if_splits)
  from O(3) have "map_of (purchase_orders st @ [(pid, po)]) pid = Some po"
    by (rule map_of_append_fresh)
  with O(4) have F: "map_of (purchase_orders st') pid = Some po"
    by (simp del: map_of_append)
  from po_loop_items[OF L] O(1,2) F show ?thesis by auto
qed

theorem create_purchase_order_total_and_prices_witness:
  "fst (create_purchase_order demo_env demo_admin mixed_price_body demo_store)
     = Inr (100, mixed_price_po) \<and>
   po_totalAmount mixed_price_po = 6 * 3 + 3 * 2 \<and>
   list_all2 (po_line_of demo_store) (pb_items mixed_price_body) (po_items mixed_price_po)"
proof -
  have H: "fst (create_purchase_order demo_env demo_admin mixed_price_body demo_store)
             = Inr (100, mixed_price_po)"
    by (simp add: create_purchase_order_def mixed_price_body_def demo_store_def demo_env_def
          demo_admin_def mixed_price_po_def PurchaseOrder_create_def order_status_default_def po_valid_def
          po_status_enum_def po_item_valid_def unitPrice_or_def Let_def)
  then have C: "create_purchase_order demo_env demo_admin mixed_price_body demo_store
          = (Inr (100, mixed_price_po),
             snd (create_purchase_order demo_env demo_admin mixed_price_body demo_store))"
    by (simp add: prod_eq_iff)
  from create_purchase_order_total_and_prices[OF C] H show ?thesis
    by (simp add: mixed_price_po_def)
qed

subsection \<open>C8: an order beyond the stock\<close>

text \<open>
  C8: an order of a single item whose quantity exceeds the stock of its product fails
  with the insufficient-stock answer (status 400, naming the product and its stock), and
  the store, the product's stock included, is unchanged.
\<close>

theorem create_order_insufficient_stock:
  assumes "ob_items body = [item]"
    and "map_of (products st) (ir_product item) = Some product"
    and "p_stock product < ir_quantity item"
  shows "create_order e user body st =
           (Inl (InsufficientStock (p_name product) (p_stock product)), st) \<and>
         status_code (InsufficientStock (p_name product) (p_stock product)) = 400"
  using assms by (simp add: create_order_def)

theorem create_order_insufficient_stock_witness:
  "map_of (products demo_store) 2 = Some \<lparr>p_name = ''nut'', p_price = 3, p_stock = 2\<rparr> \<and>
   create_order demo_env demo_user
     \<lparr>ob_items = [\<lparr>ir_product = 2, ir_quantity = 5, ir_price = None\<rparr>],
      ob_shippingAddress = ''dock 4''\<rparr> demo_store
   = (Inl (InsufficientStock ''nut'' 2), demo_store) \<and>
   stock_of demo_store 2 = Some 2"
proof -
  have H: "map_of (products demo_store) 2 = Some \<lparr>p_name = ''nut'', p_price = 3, p_stock = 2\<rparr>"
    by (simp add: demo_store_def)
  from create_order_insufficient_stock
         [of "\<lparr>ob_items = [\<lparr>ir_product = 2, ir_quantity = 5, ir_price = None\<rparr>],
               ob_shippingAddress = ''dock 4''\<rparr>"
             "\<lparr>ir_product = 2, ir_quantity = 5, ir_price = None\<rparr>"
             demo_store "\<lparr>p_name = ''nut'', p_price = 3, p_stock = 2\<rparr>" demo_env demo_user]
       H
  show ?thesis
    by (simp add: stock_of_def)
qed

subsection \<open>C9: a received purchase order is frozen\<close>

text \<open>
  C9: for a purchase order whose status is \<^verbatim>\<open>received\<close>, the update, whatever its
  body, and the deletion are both refused with status 400, and the store is unchanged.
\<close>

theorem received_purchase_order_is_frozen:
  assumes "map_of (purchase_orders st) pid = Some po"
    and "po_status po = ''received''"
  shows "update_purchase_order upd pid st = (Inl CannotUpdateReceived, st) \<and>
         delete_purchase_order pid st = (Inl CannotDeleteReceived, st) \<and>
         status_code CannotUpdateReceived = 400 \<and> status_code CannotDeleteReceived = 400"
  using assms by (simp add: update_purchase_order_def delete_purchase_order_def)

theorem received_purchase_order_is_frozen_witness:
  "map_option po_status (map_of (purchase_orders received_store) 5) = Some ''received'' \<and>
   update_purchase_order (\<lambda>po. Inr (po\<lparr>po_notes := ''late''\<rparr>)) 5 received_store
     = (Inl CannotUpdateReceived, received_store) \<and>
   delete_purchase_order 5 received_store = (Inl CannotDeleteReceived, received_store)"
proof -
  have H: "map_of (purchase_orders received_store) 5
             = Some (demo_po\<lparr>po_status := ''received'', po_receivedDate := Some 1000\<rparr>)"
    by (simp add: received_store_def)
  from received_purchase_order_is_frozen
         [OF H, of "\<lambda>po. Inr (po\<lparr>po_notes := ''late''\<rparr>)"] H
  show ?thesis by simp
qed

subsection \<open>C10: the status update of an order touches nothing but the status\<close>

text \<open>
  C10: a status update of an order, to any status, leaves the products and the purchase
  orders as they are and every other order as it is; the order itself differs at most in
  its status. So setting an order to \<^verbatim>\<open>cancelled\<close> this way does not give its
  quantities back.
\<close>

theorem update_order_status_changes_status_only:
  "products (snd (update_order_status oid status st)) = products st \<and>
   purchase_orders (snd (update_order_status oid status st)) = purchase_orders st \<and>
   (\<forall>i. map_of (orders (snd (update_order_status oid status st))) i =
        (if i = oid \<and> status \<in> set order_status_enum
         then map_option (\<lambda>ord. ord\<lparr>o_status := status\<rparr>) (map_of (orders st) oid)
         else map_of (orders st) i))"
  by (auto simp: update_order_status_def Let_def update_conv' split: option.splits)

theorem update_order_status_changes_status_only_witness:
  "stock_of (snd (update_order_status 100 ''cancelled'' ordered_store)) 1 = Some 6 \<and>
   map_of (orders (snd (update_order_status 100 ''cancelled'' ordered_store))) 100
     = Some (demo_order\<lparr>o_status := ''cancelled''\<rparr>)"
  using update_order_status_changes_status_only [of 100 "''cancelled''" ordered_store]
  by (simp add: ordered_store_def stock_of_def order_status_enum_def)

end
